theory Spec2Isabelle
  imports Complex_Main "HOL-Library.Word"
begin

unbundle bit_operations_syntax

section \<open>Data model of server.py\<close>

text \<open>
  The named tuples of the module. Python integers are unbounded, so coordinates are
  \<^typ>\<open>int\<close>. The fields \<^verbatim>\<open>z\<close>, \<^verbatim>\<open>x\<close>, \<^verbatim>\<open>y\<close>, \<^verbatim>\<open>format\<close> of
  \<^verbatim>\<open>TileRequest\<close> carry the prefix \<open>tile_\<close> here, so that the one-letter names stay
  free for variables. Strings are byte strings (UTF-8), a timestamp is a number.
\<close>

datatype tile_request =
  TileRequest (tile_z: int) (tile_x: int) (tile_y: int) (tile_format: string)

type_synonym bytes = "8 word list"
type_synonym timestamp = int

datatype cache_info_t =
  CacheInfo (last_modified: "timestamp option") (etag: "string option")

datatype storage_response =
  StorageResponse (data: bytes) (cache_info: cache_info_t)

text \<open>
  The exceptions that leave the functions of the module. \<open>ValueError\<close> is Python's
  own (raised by the size checks, by a negative shift count and by the cache for a value
  larger than its capacity); \<open>BadZipFile\<close> and \<open>KeyError\<close> are raised by the archive
  library; \<open>Uncaught\<close> is an exception of the object-store client that the module does
  not catch, named by its class; the other four are the classes the module declares.
  \<open>TileNotFoundInMetatile\<close> carries the \<open>KeyError\<close> it is raised from.
\<close>

datatype key_error = KeyError string

datatype error =
    ValueError string
  | BadZipFile
  | Uncaught string
  | MetatileNotModifiedException
  | MetatileNotFoundException string
  | UnknownMetatileException string
  | TileNotFoundInMetatile key_error

section \<open>Formatting of integers\<close>

text \<open>\<^verbatim>\<open>str(n)\<close>, \<^verbatim>\<open>"%s" % n\<close>, \<^verbatim>\<open>"%d" % n\<close> and \<^verbatim>\<open>"{z}".format(z=n)\<close> of an integer: its decimal digits,
  with a minus sign when negative.\<close>

fun str_nat :: "nat \<Rightarrow> string" where
  "str_nat n =
     (if n < 10 then [''0123456789'' ! n]
      else str_nat (n div 10) @ [''0123456789'' ! (n mod 10)])"

declare str_nat.simps [simp del]

definition str_int :: "int \<Rightarrow> string" where
  "str_int i = (if i < 0 then ''-'' @ str_nat (nat (- i)) else str_nat (nat i))"

section \<open>Floating-point numbers\<close>

text \<open>
  A finite Python float is an IEEE 754 double; the model takes it as the rational number
  it denotes. The result of an arithmetic operation is the exact result rounded to the
  nearest double, ties to the even mantissa: \<open>double_exponent x\<close> is the \<open>e\<close> with
  \<open>2 ^ e \<le> \<bar>x\<bar> < 2 ^ (e + 1)\<close>, and a double of that magnitude is a multiple of
  \<open>2 ^ (e - 52)\<close>. The values that occur here are zooms and their differences, far from
  overflow and from the subnormal range, which are not modelled.
\<close>

type_synonym float = rat

fun log2_floor :: "nat \<Rightarrow> nat" where
  "log2_floor n = (if n < 2 then 0 else Suc (log2_floor (n div 2)))"

declare log2_floor.simps [simp del]

definition log2_ceil :: "nat \<Rightarrow> nat" where
  "log2_ceil n = (if n \<le> 1 then 0 else Suc (log2_floor (n - 1)))"

definition double_exponent :: "rat \<Rightarrow> int" where
  "double_exponent x =
     (if 1 \<le> \<bar>x\<bar> then int (log2_floor (nat \<lfloor>\<bar>x\<bar>\<rfloor>))
      else - int (log2_ceil (nat \<lceil>1 / \<bar>x\<bar>\<rceil>)))"

definition round_half_even :: "rat \<Rightarrow> int" where
  "round_half_even q =
     (let f = \<lfloor>q\<rfloor>; r = q - of_int f in
      if r < 1 / 2 then f else if 1 / 2 < r then f + 1 else if even f then f else f + 1)"

definition round_double :: "rat \<Rightarrow> float" where
  "round_double x =
     (if x = 0 then 0
      else let ulp = 2 powi (double_exponent x - 52)
           in sgn x * of_int (round_half_even (\<bar>x\<bar> / ulp)) * ulp)"

text \<open>\<^verbatim>\<open>x - y\<close> on floats, and \<^verbatim>\<open>int(x)\<close>, which truncates towards zero.\<close>

definition float_sub :: "float \<Rightarrow> float \<Rightarrow> float" where
  "float_sub x y = round_double (x - y)"

definition py_int :: "float \<Rightarrow> int" where
  "py_int x = (if x < 0 then \<lceil>x\<rceil> else \<lfloor>x\<rfloor>)"

section \<open>The address resolver\<close>

text \<open>
  \<^verbatim>\<open>def is_power_of_two(num): return num and not num & (num - 1)\<close>

  The result is only ever read for its truth value: \<open>0\<close> is false, and a non-zero \<open>num\<close>
  gives \<^verbatim>\<open>not (num & (num - 1))\<close>.
\<close>

definition is_power_of_two :: "int \<Rightarrow> bool" where
  "is_power_of_two num \<longleftrightarrow> num \<noteq> 0 \<and> \<not> (num AND (num - 1) \<noteq> 0)"

text \<open>
  \<^verbatim>\<open>def size_to_zoom(size): return math.log(size, 2)\<close>

  \<^verbatim>\<open>math.log\<close> belongs to the standard library, and the double it returns is the
  quotient of two logarithms of the platform's C library: it is a parameter of the model,
  a function from the argument and the base to a float. On the powers of two it need not
  return the integer: CPython gives \<^verbatim>\<open>29.000000000000004\<close> for \<^verbatim>\<open>math.log(2**29, 2)\<close>.
\<close>

type_synonym math_log_t = "int \<Rightarrow> int \<Rightarrow> float"

definition size_to_zoom :: "math_log_t \<Rightarrow> int \<Rightarrow> float" where
  "size_to_zoom math_log sz = math_log sz 2"

text \<open>Python's shifts of an integer: a negative count raises \<open>ValueError\<close>, \<^verbatim>\<open>>>\<close> rounds
  towards minus infinity.\<close>

definition py_rshift :: "int \<Rightarrow> int \<Rightarrow> error + int" where
  "py_rshift a n =
     (if n < 0 then Inl (ValueError ''negative shift count'') else Inr (drop_bit (nat n) a))"

definition py_lshift :: "int \<Rightarrow> int \<Rightarrow> error + int" where
  "py_lshift a n =
     (if n < 0 then Inl (ValueError ''negative shift count'') else Inr (push_bit (nat n) a))"

text \<open>The truth value of an optional integer: \<^verbatim>\<open>None\<close> and \<open>0\<close> are false.\<close>

fun truthy_int :: "int option \<Rightarrow> bool" where
  "truthy_int None = False"
| "truthy_int (Some n) = (n \<noteq> 0)"

text \<open>
  \<^verbatim>\<open>def meta_and_offset(requested_tile, meta_size, tile_size, metatile_max_detail_zoom=None)\<close>

  The branches follow the source in order: the two power-of-two checks, the comparison of
  the two float zooms, \<^verbatim>\<open>delta_z = int(meta_zoom - tile_zoom)\<close>, the root metatile for a
  zoom below \<open>delta_z\<close>, the clamp of \<open>delta_z\<close> by \<^verbatim>\<open>int(meta_zoom)\<close>, and the two
  coordinates. The operands of \<^verbatim>\<open>and\<close> in the clamp's condition are evaluated left to
  right, so the comparison reads the option only when it holds a non-zero number.
\<close>

definition meta_and_offset ::
  "math_log_t \<Rightarrow> tile_request \<Rightarrow> int \<Rightarrow> int \<Rightarrow> int option
     \<Rightarrow> error + (tile_request \<times> tile_request)" where
  "meta_and_offset math_log requested_tile meta_size tile_size metatile_max_detail_zoom =
     (if \<not> is_power_of_two meta_size then
        Inl (ValueError (''Metatile size '' @ str_int meta_size @ '' is not a power of two''))
      else if \<not> is_power_of_two tile_size then
        Inl (ValueError (''Tile size '' @ str_int tile_size @ '' is not a power of two''))
      else
        let meta_zoom = size_to_zoom math_log meta_size;
            tile_zoom = size_to_zoom math_log tile_size
        in
        if tile_zoom > meta_zoom then
          Inl (ValueError (''Tile size must not be greater than metatile size, but ''
                 @ str_int tile_size @ '' > '' @ str_int meta_size @ ''.''))
        else
          let delta_z = py_int (float_sub meta_zoom tile_zoom) in
          if tile_z requested_tile < delta_z then
            Inr (TileRequest 0 0 0 ''zip'',
                 TileRequest 0 0 0 (tile_format requested_tile))
          else
            let delta_z =
                  (if truthy_int metatile_max_detail_zoom \<and>
                      tile_z requested_tile - delta_z > the metatile_max_detail_zoom
                   then min (tile_z requested_tile - the metatile_max_detail_zoom)
                          (py_int meta_zoom)
                   else delta_z)
            in
            (case py_rshift (tile_x requested_tile) delta_z of
              Inl e \<Rightarrow> Inl e
            | Inr mx \<Rightarrow>
            (case py_rshift (tile_y requested_tile) delta_z of
              Inl e \<Rightarrow> Inl e
            | Inr my \<Rightarrow>
            let meta = TileRequest (tile_z requested_tile - delta_z) mx my ''zip'' in
            (case py_lshift (tile_x meta) delta_z of
              Inl e \<Rightarrow> Inl e
            | Inr sx \<Rightarrow>
            (case py_lshift (tile_y meta) delta_z of
              Inl e \<Rightarrow> Inl e
            | Inr sy \<Rightarrow>
            Inr (meta,
                 TileRequest (tile_z requested_tile - tile_z meta)
                             (tile_x requested_tile - sx)
                             (tile_y requested_tile - sy)
                             (tile_format requested_tile)))))))"

text \<open>
  The coordinate pair of steps 4 and 5 of the resolver for a given zoom difference. The
  theorem on the clamp compares the result of \<open>meta_and_offset\<close> with it.
\<close>

definition coordinates_at :: "tile_request \<Rightarrow> int \<Rightarrow> tile_request \<times> tile_request" where
  "coordinates_at requested delta =
     (let meta = TileRequest (tile_z requested - delta)
                   (drop_bit (nat delta) (tile_x requested))
                   (drop_bit (nat delta) (tile_y requested)) ''zip''
      in (meta,
          TileRequest (tile_z requested - tile_z meta)
            (tile_x requested - push_bit (nat delta) (tile_x meta))
            (tile_y requested - push_bit (nat delta) (tile_y meta))
            (tile_format requested)))"

section \<open>MD5\<close>

text \<open>
  \<^verbatim>\<open>hashlib.md5(...).hexdigest()\<close> belongs to Python's standard library. It is modelled
  after RFC 1321: the message is padded to a multiple of 64 bytes, each block is sixteen
  little-endian 32-bit words, and 64 steps per block update the four state words. The
  lemmas \<open>md5_test_empty\<close> and \<open>md5_test_abc\<close> below check the model against test vectors
  of the RFC.
\<close>

definition md5_K :: "32 word list" where
  "md5_K =
     [
      0xd76aa478, 0xe8c7b756, 0x242070db, 0xc1bdceee,
      0xf57c0faf, 0x4787c62a, 0xa8304613, 0xfd469501,
      0x698098d8, 0x8b44f7af, 0xffff5bb1, 0x895cd7be,
      0x6b901122, 0xfd987193, 0xa679438e, 0x49b40821,
      0xf61e2562, 0xc040b340, 0x265e5a51, 0xe9b6c7aa,
      0xd62f105d, 0x02441453, 0xd8a1e681, 0xe7d3fbc8,
      0x21e1cde6, 0xc33707d6, 0xf4d50d87, 0x455a14ed,
      0xa9e3e905, 0xfcefa3f8, 0x676f02d9, 0x8d2a4c8a,
      0xfffa3942, 0x8771f681, 0x6d9d6122, 0xfde5380c,
      0xa4beea44, 0x4bdecfa9, 0xf6bb4b60, 0xbebfbc70,
      0x289b7ec6, 0xeaa127fa, 0xd4ef3085, 0x04881d05,
      0xd9d4d039, 0xe6db99e5, 0x1fa27cf8, 0xc4ac5665,
      0xf4292244, 0x432aff97, 0xab9423a7, 0xfc93a039,
      0x655b59c3, 0x8f0ccc92, 0xffeff47d, 0x85845dd1,
      0x6fa87e4f, 0xfe2ce6e0, 0xa3014314, 0x4e0811a1,
      0xf7537e82, 0xbd3af235, 0x2ad7d2bb, 0xeb86d391]"

definition md5_s :: "nat list" where
  "md5_s =
     [
      7, 12, 17, 22, 7, 12, 17, 22, 7, 12, 17, 22, 7, 12, 17, 22,
      5, 9, 14, 20, 5, 9, 14, 20, 5, 9, 14, 20, 5, 9, 14, 20,
      4, 11, 16, 23, 4, 11, 16, 23, 4, 11, 16, 23, 4, 11, 16, 23,
      6, 10, 15, 21, 6, 10, 15, 21, 6, 10, 15, 21, 6, 10, 15, 21]"

definition le_bytes :: "nat \<Rightarrow> 'a::len word \<Rightarrow> bytes" where
  "le_bytes n w = map (\<lambda>i. ucast (drop_bit (8 * i) w)) [0..<n]"

definition le_word :: "bytes \<Rightarrow> 32 word" where
  "le_word bs = foldr (\<lambda>b w. ucast b + push_bit 8 w) bs 0"

definition md5_pad :: "bytes \<Rightarrow> bytes" where
  "md5_pad msg =
     msg @ [0x80] @ replicate ((119 - length msg mod 64) mod 64) 0
       @ le_bytes 8 (word_of_nat (8 * length msg) :: 64 word)"

definition md5_blocks :: "bytes \<Rightarrow> 32 word list list" where
  "md5_blocks bs =
     map (\<lambda>i. map (\<lambda>j. le_word (take 4 (drop (64 * i + 4 * j) bs))) [0..<16])
       [0..<length bs div 64]"

type_synonym md5_state = "32 word \<times> 32 word \<times> 32 word \<times> 32 word"

definition md5_step :: "32 word list \<Rightarrow> md5_state \<Rightarrow> nat \<Rightarrow> md5_state" where
  "md5_step M st i =
     (case st of (A, B, C, D) \<Rightarrow>
        let (F, g) =
              (if i < 16 then ((B AND C) OR (NOT B AND D), i)
               else if i < 32 then ((D AND B) OR (NOT D AND C), (5 * i + 1) mod 16)
               else if i < 48 then (B XOR C XOR D, (3 * i + 5) mod 16)
               else (C XOR (B OR NOT D), (7 * i) mod 16));
            F = F + A + md5_K ! i + M ! g
        in (D, B + word_rotl (md5_s ! i) F, B, C))"

definition md5_block :: "md5_state \<Rightarrow> 32 word list \<Rightarrow> md5_state" where
  "md5_block st M =
     (case st of (a0, b0, c0, d0) \<Rightarrow>
        case foldl (md5_step M) st [0..<64] of (A, B, C, D) \<Rightarrow>
          (a0 + A, b0 + B, c0 + C, d0 + D))"

definition md5_digest :: "bytes \<Rightarrow> bytes" where
  "md5_digest msg =
     (case foldl md5_block (0x67452301, 0xefcdab89, 0x98badcfe, 0x10325476)
             (md5_blocks (md5_pad msg)) of
        (a0, b0, c0, d0) \<Rightarrow> concat (map (le_bytes 4) [a0, b0, c0, d0]))"

definition hex_digits :: string where
  "hex_digits = ''0123456789abcdef''"

definition hex_byte :: "8 word \<Rightarrow> string" where
  "hex_byte b = [hex_digits ! (unat b div 16), hex_digits ! (unat b mod 16)]"

text \<open>\<^verbatim>\<open>hashlib.md5(k.encode('utf8')).hexdigest()\<close>; a string of the model is its UTF-8 bytes.\<close>

definition md5_hexdigest :: "string \<Rightarrow> string" where
  "md5_hexdigest s = concat (map hex_byte (md5_digest (map of_char s)))"

section \<open>The key builder\<close>

text \<open>The truth value of an optional string: \<^verbatim>\<open>None\<close> and the empty string are false.\<close>

fun truthy_str :: "string option \<Rightarrow> bool" where
  "truthy_str None = False"
| "truthy_str (Some s) = (s \<noteq> [])"

text \<open>
  \<^verbatim>\<open>def compute_key(prefix, layer, meta_tile, include_hash=True)\<close>

  The variable \<^verbatim>\<open>k\<close> is rebound twice; \<^verbatim>\<open>k[1:]\<close> drops the first character.
\<close>

definition compute_key :: "string option \<Rightarrow> string \<Rightarrow> tile_request \<Rightarrow> bool \<Rightarrow> string" where
  "compute_key prefix layer meta_tile include_hash =
     (let k = ''/'' @ layer @ ''/'' @ str_int (tile_z meta_tile) @ ''/''
                @ str_int (tile_x meta_tile) @ ''/'' @ str_int (tile_y meta_tile)
                @ ''.'' @ tile_format meta_tile;
          k = (if include_hash then
                 let h = take 5 (md5_hexdigest k) in ''/'' @ h @ k
               else k);
          k = (if truthy_str prefix then ''/'' @ the prefix @ k else k)
      in drop 1 k)"

text \<open>The path \<^verbatim>\<open><layer>/<zoom>/<x>/<y>.<format>\<close> of a metatile, to state what \<open>compute_key\<close>
  returns.\<close>

definition tile_path :: "string \<Rightarrow> tile_request \<Rightarrow> string" where
  "tile_path layer meta_tile =
     layer @ ''/'' @ str_int (tile_z meta_tile) @ ''/'' @ str_int (tile_x meta_tile) @ ''/''
       @ str_int (tile_y meta_tile) @ ''.'' @ tile_format meta_tile"

section \<open>The metatile cache\<close>

text \<open>
  \<^verbatim>\<open>cachetools.LFUCache(100e6, getsizeof=lambda i: sys.getsizeof(i.data))\<close> is a class of
  the cachetools library. The model keeps what the library documents: the entries in the
  order of their insertion, each with the number of times it was used; a capacity in
  bytes; \<^verbatim>\<open>get\<close> counts a use of a key that is present and changes nothing otherwise;
  an assignment refuses a value larger than the capacity with \<open>ValueError\<close> and evicts
  least frequently used entries until the value fits. \<^verbatim>\<open>sys.getsizeof\<close> of a byte string
  is its length plus the 33 bytes of the object header of a 64-bit CPython.
\<close>

type_synonym cache_entries = "(tile_request \<times> storage_response \<times> nat) list"

record lfu_cache =
  maxsize :: nat
  entries :: cache_entries

definition getsizeof :: "storage_response \<Rightarrow> nat" where
  "getsizeof i = 33 + length (data i)"

definition currsize :: "cache_entries \<Rightarrow> nat" where
  "currsize es = sum_list (map (\<lambda>(k, v, n). getsizeof v) es)"

fun least_used :: "cache_entries \<Rightarrow> (tile_request \<times> storage_response \<times> nat) option" where
  "least_used [] = None"
| "least_used (e # es) =
     (case least_used es of
        None \<Rightarrow> Some e
      | Some e' \<Rightarrow> if snd (snd e) \<le> snd (snd e') then Some e else Some e')"

definition popitem :: "cache_entries \<Rightarrow> cache_entries" where
  "popitem es =
     (case least_used es of
        None \<Rightarrow> es
      | Some (k, v, n) \<Rightarrow> filter (\<lambda>e. fst e \<noteq> k) es)"

lemma least_used_in_set: "least_used es = Some e \<Longrightarrow> e \<in> set es"
  by (induction es arbitrary: e) (auto split: option.splits if_splits)

lemma length_popitem: "es \<noteq> [] \<Longrightarrow> length (popitem es) < length es"
proof -
  assume "es \<noteq> []"
  then have "\<exists>e. least_used es = Some e"
    by (cases es) (auto split: option.split)
  then obtain e where e: "least_used es = Some e" ..
  then have "e \<in> set es" by (rule least_used_in_set)
  then have "length (filter (\<lambda>e'. fst e' \<noteq> fst e) es) < length es"
    by (rule length_filter_less) simp
  with e show ?thesis
    by (cases e) (simp add: popitem_def)
qed

text \<open>\<^verbatim>\<open>while self.currsize + size > maxsize: self.popitem()\<close>. The loop is entered for a
  size that is at most the capacity, so it stops at the latest on the empty cache.\<close>

function evict :: "nat \<Rightarrow> nat \<Rightarrow> cache_entries \<Rightarrow> cache_entries" where
  "evict maxsz sz es =
     (if currsize es + sz > maxsz \<and> es \<noteq> [] then evict maxsz sz (popitem es) else es)"
  by pat_completeness auto
termination
  by (relation "measure (\<lambda>(maxsz, sz, es). length es)") (auto simp: length_popitem)

declare evict.simps [simp del]

definition cache_get :: "lfu_cache \<Rightarrow> tile_request \<Rightarrow> storage_response option \<times> lfu_cache" where
  "cache_get cache key =
     (case map_of (entries cache) key of
        None \<Rightarrow> (None, cache)
      | Some (v, n) \<Rightarrow>
          (Some v,
           cache\<lparr>entries :=
             map (\<lambda>(k', v', n'). if k' = key then (k', v', Suc n') else (k', v', n'))
               (entries cache)\<rparr>))"

definition cache_setitem ::
  "lfu_cache \<Rightarrow> tile_request \<Rightarrow> storage_response \<Rightarrow> error + lfu_cache" where
  "cache_setitem cache key v =
     (let sz = getsizeof v in
      if sz > maxsize cache then Inl (ValueError ''value too large'')
      else
        let es = (case map_of (entries cache) key of
                    None \<Rightarrow> evict (maxsize cache) sz (entries cache)
                  | Some (v0, n0) \<Rightarrow>
                      if getsizeof v0 < sz then evict (maxsize cache) sz (entries cache)
                      else entries cache);
            es = (case map_of es key of
                    None \<Rightarrow> es @ [(key, v, 1)]
                  | Some (v0, n0) \<Rightarrow>
                      map (\<lambda>(k', v', n'). if k' = key then (k', v, Suc n') else (k', v', n')) es)
        in Inr (cache\<lparr>entries := es\<rparr>))"

section \<open>The storage fetcher\<close>

text \<open>
  The settings read from \<^verbatim>\<open>current_app.config\<close>, the parameters and the answer of the
  object store's \<^verbatim>\<open>get_object\<close>, and what the call and the reading of its body can
  raise: a \<^verbatim>\<open>ClientError\<close>, whose response may hold an error code, or an exception of
  another class (a connection failure, say), named by its class. The object store is a
  function from the parameters of a call to its outcome.
\<close>

record config =
  S3_PREFIX :: "string option"
  INCLUDE_HASH :: bool
  REQUESTER_PAYS :: bool
  S3_BUCKET :: string

record get_params =
  Bucket :: string
  Key :: string
  IfModifiedSince :: "timestamp option"
  IfNoneMatch :: "string option"
  RequestPayer :: "string option"

record s3_object =
  ETag :: string
  Body :: bytes
  LastModified :: timestamp
  ContentLength :: nat

datatype store_exception = ClientError "string option" | OtherException string

type_synonym s3_client = "get_params \<Rightarrow> store_exception + s3_object"

text \<open>The dictionary \<^verbatim>\<open>get_params\<close> that \<open>metatile_fetch\<close> builds: a conditional header is
  present only for a hint that is true (not \<^verbatim>\<open>None\<close>, not the empty string).\<close>

definition fetch_params :: "config \<Rightarrow> tile_request \<Rightarrow> cache_info_t \<Rightarrow> get_params" where
  "fetch_params cfg meta ci =
     \<lparr>Bucket = S3_BUCKET cfg,
      Key = compute_key (S3_PREFIX cfg) ''all'' meta (INCLUDE_HASH cfg),
      IfModifiedSince = last_modified ci,
      IfNoneMatch = (if truthy_str (etag ci) then etag ci else None),
      RequestPayer = (if REQUESTER_PAYS cfg then Some ''requester'' else None)\<rparr>"

text \<open>\<^verbatim>\<open>str(e.response.get('Error', {}).get('Code'))\<close> of a \<^verbatim>\<open>ClientError\<close> with the given
  code, or none.\<close>

definition error_code_of :: "string option \<Rightarrow> string" where
  "error_code_of c = (case c of None \<Rightarrow> ''None'' | Some code \<Rightarrow> code)"

text \<open>
  \<^verbatim>\<open>def metatile_fetch(meta, cache_info)\<close>

  The cache is the state: the function takes it and returns it. The third component of
  the result lists the calls made to the object store. A cached value is a named tuple
  of two fields, which is true, so \<^verbatim>\<open>if cached\<close> asks whether the key was present.
  \<^verbatim>\<open>response['ETag'][1:-1]\<close> drops the first and the last character. The \<^verbatim>\<open>except\<close>
  clause names \<^verbatim>\<open>ClientError\<close> only, so an exception of another class leaves the function
  as it is. Logging and the clock are not modelled.
\<close>

definition metatile_fetch ::
  "config \<Rightarrow> s3_client \<Rightarrow> lfu_cache \<Rightarrow> tile_request \<Rightarrow> cache_info_t
     \<Rightarrow> (error + storage_response) \<times> lfu_cache \<times> get_params list" where
  "metatile_fetch cfg store cache meta ci =
     (case cache_get cache meta of
        (Some cached, cache') \<Rightarrow> (Inr cached, cache', [])
      | (None, cache') \<Rightarrow>
          let params = fetch_params cfg meta ci in
          (case store params of
             Inr response \<Rightarrow>
               let quoteless_etag = butlast (drop 1 (ETag response));
                   result = StorageResponse (Body response)
                              (CacheInfo (Some (LastModified response)) (Some quoteless_etag))
               in (case cache_setitem cache' meta result of
                     Inl e \<Rightarrow> (Inl e, cache', [params])
                   | Inr cache'' \<Rightarrow> (Inr result, cache'', [params]))
           | Inl (OtherException name) \<Rightarrow> (Inl (Uncaught name), cache', [params])
           | Inl (ClientError c) \<Rightarrow>
               let error_code = error_code_of c in
               (if error_code = ''304'' then Inl MetatileNotModifiedException
                else if error_code = ''NoSuchKey'' then
                  Inl (MetatileNotFoundException
                         (''No tile found at s3://'' @ Bucket params @ ''/'' @ Key params))
                else
                  Inl (UnknownMetatileException
                         (error_code @ '' at s3://'' @ Bucket params @ ''/'' @ Key params)),
                cache', [params])))"

section \<open>The archive extractor and the tile service\<close>

text \<open>
  \<^verbatim>\<open>zipfile.ZipFile(BytesIO(metatile_bytes), 'r')\<close> belongs to the standard library: it is a
  parameter here, a function from the bytes to the opened archive, or to nothing when the
  bytes are no archive (\<open>BadZipFile\<close>). The opened archive is its \<^verbatim>\<open>read\<close>: for a name it
  returns the bytes of the member, or raises the library's \<^verbatim>\<open>KeyError\<close> for a name that is
  no member. \<open>extract_tile\<close> raises \<^verbatim>\<open>TileNotFoundInMetatile(e)\<close> from that \<^verbatim>\<open>KeyError\<close>.
\<close>

type_synonym zip_archive = "string \<Rightarrow> key_error + bytes"
type_synonym zip_reader = "bytes \<Rightarrow> zip_archive option"

definition offset_key :: "tile_request \<Rightarrow> string" where
  "offset_key offset =
     str_int (tile_z offset) @ ''/'' @ str_int (tile_x offset) @ ''/''
       @ str_int (tile_y offset) @ ''.'' @ tile_format offset"

definition extract_tile :: "zip_reader \<Rightarrow> bytes \<Rightarrow> tile_request \<Rightarrow> error + bytes" where
  "extract_tile unzip metatile_bytes offset =
     (case unzip metatile_bytes of
        None \<Rightarrow> Inl BadZipFile
      | Some z \<Rightarrow>
          (case z (offset_key offset) of
             Inr tile_data \<Rightarrow> Inr tile_data
           | Inl e \<Rightarrow> Inl (TileNotFoundInMetatile e)))"

text \<open>\<^verbatim>\<open>def retrieve_tile(meta, offset, cache_info)\<close>\<close>

definition retrieve_tile ::
  "config \<Rightarrow> s3_client \<Rightarrow> zip_reader \<Rightarrow> lfu_cache \<Rightarrow> tile_request \<Rightarrow> tile_request
     \<Rightarrow> cache_info_t \<Rightarrow> (error + storage_response) \<times> lfu_cache \<times> get_params list" where
  "retrieve_tile cfg store unzip cache meta offset ci =
     (case metatile_fetch cfg store cache meta ci of
        (Inl e, cache', calls) \<Rightarrow> (Inl e, cache', calls)
      | (Inr metatile_data, cache', calls) \<Rightarrow>
          (case extract_tile unzip (data metatile_data) offset of
             Inl e \<Rightarrow> (Inl e, cache', calls)
           | Inr tile_data \<Rightarrow>
               (Inr (StorageResponse tile_data
                       (CacheInfo (last_modified (cache_info metatile_data))
                                  (etag (cache_info metatile_data)))),
                cache', calls)))"

section \<open>A sample deployment\<close>

text \<open>
  Concrete values on which the theorems below are instantiated: the logarithm to base 2
  as CPython computes it on the sizes used below (\<^verbatim>\<open>math.log(2**29, 2)\<close> is
  \<^verbatim>\<open>29.000000000000004\<close>, the double \<open>29 + 2\<^sup>-\<^sup>4\<^sup>8\<close>; at 1, 2, 8 and \<^verbatim>\<open>2**30\<close> it is the
  integer; at the other sizes, which no theorem evaluates, \<open>sample_log\<close> takes the
  integer as well); a configuration without prefix and hash, a metatile of four bytes whose archive holds the one member
  \<^verbatim>\<open>3/2/4.mvt\<close> and answers any other name with the \<^verbatim>\<open>KeyError\<close> of \<^verbatim>\<open>zipfile\<close>, an empty
  cache and a cache that holds the metatile \<open>(2, 1, 1)\<close> with a given number of uses, an
  object store that fails every call with a \<^verbatim>\<open>ClientError\<close> of a given code, one that
  fails every call with an exception of another class, and one that holds the metatile
  under its key.
\<close>

definition sample_log :: math_log_t where
  "sample_log n base =
     of_nat (log2_floor (nat n)) + (if n = 2 ^ 29 then 1 / 2 ^ 48 else 0)"

definition sample_config :: config where
  "sample_config =
     \<lparr>S3_PREFIX = None, INCLUDE_HASH = False, REQUESTER_PAYS = False, S3_BUCKET = ''tiles''\<rparr>"

definition sample_metatile :: storage_response where
  "sample_metatile = StorageResponse [80, 75, 3, 4] (CacheInfo (Some 1500000000) (Some ''abc''))"

definition sample_archive :: zip_archive where
  "sample_archive name =
     (if name = ''3/2/4.mvt'' then Inr [1, 2, 3]
      else Inl (KeyError (''There is no item named '' @ [CHR 0x27] @ name @ [CHR 0x27]
                            @ '' in the archive'')))"

definition sample_unzip :: zip_reader where
  "sample_unzip b = (if b = [80, 75, 3, 4] then Some sample_archive else None)"

definition empty_cache :: lfu_cache where
  "empty_cache = \<lparr>maxsize = 1000, entries = []\<rparr>"

definition warm_cache :: "nat \<Rightarrow> lfu_cache" where
  "warm_cache n = \<lparr>maxsize = 1000, entries = [(TileRequest 2 1 1 ''zip'', sample_metatile, n)]\<rparr>"

definition failing_s3 :: "string option \<Rightarrow> s3_client" where
  "failing_s3 c params = Inl (ClientError c)"

definition raising_s3 :: "string \<Rightarrow> s3_client" where
  "raising_s3 name params = Inl (OtherException name)"

definition sample_s3 :: s3_client where
  "sample_s3 params =
     (if Key params = ''all/2/1/1.zip'' then
        Inr \<lparr>ETag = [CHR 0x22] @ ''abc'' @ [CHR 0x22], Body = [80, 75, 3, 4],
             LastModified = 1500000000, ContentLength = 4\<rparr>
      else Inl (ClientError (Some ''NoSuchKey'')))"

section \<open>Properties of the address resolver\<close>

lemma log2_floor_power [simp]: "log2_floor (2 ^ k) = k"
  by (induction k) (simp_all add: log2_floor.simps)

subsection \<open>The bit test recognises the powers of two\<close>

lemma pow2_and_pred: "(2::int) ^ k AND (2 ^ k - 1) = 0"
  by (metis and.commute and_exp_eq_0_iff_not_bit bit_mask_iff mask_eq_exp_minus_1
      order_less_irrefl)

lemma and_pred_pos: "0 < (n::int) \<Longrightarrow> n AND (n - 1) = 0 \<Longrightarrow> \<exists>k. n = 2 ^ k"
proof (induction "nat n" arbitrary: n rule: less_induct)
  case less
  show ?case
  proof (cases "even n")
    case True
    then obtain m where m: "n = 2 * m" by auto
    with less.prems have mpos: "0 < m" by simp
    have d: "(2 * m - 1) div 2 = m - 1" by linarith
    have "n AND (n - 1) = 2 * (m AND (m - 1))"
      unfolding m by (subst and_int.rec) (simp add: d)
    with less.prems have "m AND (m - 1) = 0" by simp
    moreover have "nat m < nat n" using m mpos by simp
    ultimately obtain k where "m = 2 ^ k" using less.hyps mpos by blast
    then have "n = 2 ^ Suc k" using m by simp
    then show ?thesis by blast
  next
    case False
    then obtain m where m: "n = 2 * m + 1" by (auto elim: oddE)
    have "n AND (n - 1) = 2 * m"
      unfolding m by (subst and_int.rec) simp
    with less.prems have "m = 0" by simp
    then have "n = 2 ^ 0" using m by simp
    then show ?thesis by blast
  qed
qed

lemma is_power_of_two_iff: "is_power_of_two n \<longleftrightarrow> (\<exists>k. n = 2 ^ k)"
proof
  assume h: "is_power_of_two n"
  then have n0: "n \<noteq> 0" and a: "n AND (n - 1) = 0"
    by (simp_all add: is_power_of_two_def)
  have "\<not> n < 0"
  proof
    assume "n < 0"
    then have "n AND (n - 1) < 0" by simp
    with a show False by simp
  qed
  with n0 have "0 < n" by simp
  then show "\<exists>k. n = 2 ^ k" using a by (rule and_pred_pos)
next
  assume "\<exists>k. n = 2 ^ k"
  then obtain k where "n = 2 ^ k" ..
  then show "is_power_of_two n"
    by (simp add: is_power_of_two_def pow2_and_pred)
qed

lemma is_power_of_two_power [simp]: "is_power_of_two (2 ^ k)"
  by (auto simp: is_power_of_two_iff)

lemma valid_sizes:
  assumes "meta_size = (2::int) ^ a" and "tile_size = 2 ^ b" and "tile_size \<le> meta_size"
  shows "b \<le> a"
  using assms by simp

subsection \<open>Floats\<close>

lemma round_half_even_nonneg: "0 \<le> q \<Longrightarrow> 0 \<le> round_half_even q"
  by (auto simp: round_half_even_def Let_def)

lemma round_double_nonneg: "0 \<le> x \<Longrightarrow> 0 \<le> round_double x"
  by (auto simp: round_double_def Let_def round_half_even_nonneg sgn_if)

lemma py_int_nonneg: "0 \<le> x \<Longrightarrow> 0 \<le> py_int x"
  by (simp add: py_int_def)

lemma delta_z_nonneg: "y \<le> x \<Longrightarrow> 0 \<le> py_int (float_sub x y)"
  by (simp add: float_sub_def py_int_nonneg round_double_nonneg)

lemma sample_log_power:
  "sample_log (2 ^ k) base = of_nat k + (if k = 29 then 1 / 2 ^ 48 else 0)"
proof -
  have "nat ((2::int) ^ k) = 2 ^ k"
    by (simp add: nat_power_eq)
  moreover have "(2::int) ^ k = 2 ^ 29 \<longleftrightarrow> k = 29"
    by (rule power_inject_exp) simp
  ultimately show ?thesis
    unfolding sample_log_def by (simp only: log2_floor_power)
qed

subsection \<open>The result on sizes that pass the checks\<close>

lemma meta_and_offset_sizes:
  assumes "\<not> size_to_zoom math_log (2 ^ b) > size_to_zoom math_log (2 ^ a)"
    and "py_int (float_sub (size_to_zoom math_log (2 ^ a)) (size_to_zoom math_log (2 ^ b))) = d"
    and "py_int (size_to_zoom math_log (2 ^ a)) = c"
    and "d \<le> tile_z r"
    and "D = (if truthy_int mdz \<and> the mdz < tile_z r - d then min (tile_z r - the mdz) c else d)"
    and "0 \<le> D"
  shows "meta_and_offset math_log r (2 ^ a) (2 ^ b) mdz = Inr (coordinates_at r D)"
proof -
  have nn: "\<not> D < 0" using assms(6) by simp
  show ?thesis
  proof (cases "truthy_int mdz \<and> the mdz < tile_z r - d")
    case True
    with assms(5) have eq: "min (tile_z r - the mdz) c = D" by simp
    from assms(1-4) True nn show ?thesis
      by (simp add: meta_and_offset_def Let_def eq py_rshift_def py_lshift_def
          coordinates_at_def)
  next
    case False
    with assms(5) have eq: "d = D" by auto
    from assms(1-3) False nn assms(4) [unfolded eq] show ?thesis
      unfolding eq
      by (auto simp: meta_and_offset_def Let_def py_rshift_def py_lshift_def
          coordinates_at_def)
  qed
qed

lemma meta_and_offset_below:
  assumes "\<not> size_to_zoom math_log (2 ^ b) > size_to_zoom math_log (2 ^ a)"
    and "tile_z r < py_int (float_sub (size_to_zoom math_log (2 ^ a)) (size_to_zoom math_log (2 ^ b)))"
  shows "meta_and_offset math_log r (2 ^ a) (2 ^ b) mdz =
           Inr (TileRequest 0 0 0 ''zip'', TileRequest 0 0 0 (tile_format r))"
  using assms by (simp add: meta_and_offset_def Let_def)

lemma sample_zoom_30: "size_to_zoom sample_log (2 ^ 30) = 30"
  unfolding size_to_zoom_def sample_log_power by simp

lemma sample_zoom_29: "size_to_zoom sample_log (2 ^ 29) = 29 + 1 / 2 ^ 48"
  unfolding size_to_zoom_def sample_log_power by simp

lemma sample_delta_30_29: "py_int (float_sub 30 (29 + 1 / 2 ^ 48)) = 0"
  by code_simp

lemma sample_check_30_29:
  "\<not> size_to_zoom sample_log (2 ^ 29) > size_to_zoom sample_log (2 ^ 30)"
  unfolding sample_zoom_30 sample_zoom_29 by simp

lemma sample_delta_z_30_29:
  "py_int (float_sub (size_to_zoom sample_log (2 ^ 30)) (size_to_zoom sample_log (2 ^ 29))) = 0"
  unfolding sample_zoom_30 sample_zoom_29 by (rule sample_delta_30_29)

lemma sample_meta_zoom_30: "py_int (size_to_zoom sample_log (2 ^ 30)) = 30"
  unfolding sample_zoom_30 by (simp add: py_int_def)

lemmas sample_sizes_30_29 = sample_check_30_29 sample_delta_z_30_29 sample_meta_zoom_30

subsection \<open>Sizes at which the float zooms are not exact\<close>

text \<open>
  Claim C1. The claim holds of the specified \<open>delta = log\<^sub>2 metatileSize - log\<^sub>2 tileSize\<close>,
  and the source misses it where \<^verbatim>\<open>math.log\<close> is not exact. At metatile size \<open>2 ^ 30\<close> and
  tile size \<open>2 ^ 29\<close>, \<open>delta\<close> is 1 and the source computes
  \<^verbatim>\<open>int(30.0 - 29.000000000000004) = 0\<close>: the request \<open>(5, 11, 13)\<close>, at a zoom of at least
  \<open>delta\<close> and without maximum detail zoom, is resolved to the metatile \<open>(5, 11, 13)\<close> and
  the offset \<open>(0, 0, 0)\<close>, and \<open>(11 << 1) + 0\<close> is 22, not 11.
\<close>

theorem meta_and_offset_round_trip_fails:
  "meta_and_offset sample_log (TileRequest 5 11 13 ''mvt'') (2 ^ 30) (2 ^ 29) None =
     Inr (TileRequest 5 11 13 ''zip'', TileRequest 0 0 0 ''mvt'') \<and>
   int 30 - int 29 \<le> tile_z (TileRequest 5 11 13 ''mvt'') \<and>
   tile_x (TileRequest 5 11 13 ''mvt'') \<noteq>
     push_bit (30 - 29) (tile_x (TileRequest 5 11 13 ''zip'')) + tile_x (TileRequest 0 0 0 ''mvt'')"
proof -
  have "meta_and_offset sample_log (TileRequest 5 11 13 ''mvt'') (2 ^ 30) (2 ^ 29) None =
          Inr (coordinates_at (TileRequest 5 11 13 ''mvt'') 0)"
    by (rule meta_and_offset_sizes [OF sample_sizes_30_29]) simp_all
  then show ?thesis by (simp add: coordinates_at_def)
qed

text \<open>
  Claim C3. At the same sizes the request \<open>(0, 5, 7)\<close> has a zoom below \<open>delta = 1\<close>, and the
  source, with its \<open>delta_z\<close> of 0, does not take the root branch: it returns the metatile
  \<open>(0, 5, 7)\<close>, not \<open>(0, 0, 0)\<close>.
\<close>

theorem meta_and_offset_root_fails:
  "meta_and_offset sample_log (TileRequest 0 5 7 ''mvt'') (2 ^ 30) (2 ^ 29) None =
     Inr (TileRequest 0 5 7 ''zip'', TileRequest 0 0 0 ''mvt'') \<and>
   tile_z (TileRequest 0 5 7 ''mvt'') < int 30 - int 29"
proof -
  have "meta_and_offset sample_log (TileRequest 0 5 7 ''mvt'') (2 ^ 30) (2 ^ 29) None =
          Inr (coordinates_at (TileRequest 0 5 7 ''mvt'') 0)"
    by (rule meta_and_offset_sizes [OF sample_sizes_30_29]) simp_all
  then show ?thesis by (simp add: coordinates_at_def)
qed


subsection \<open>The clamp\<close>



lemma sample_zoom_1: "size_to_zoom sample_log 1 = 0"
  by code_simp





subsection \<open>The size checks\<close>

lemma sample_log_increasing: "a < b \<Longrightarrow> sample_log (2 ^ a) 2 < sample_log (2 ^ b) 2"
proof -
  assume "a < b"
  then have "Suc a \<le> b" by simp
  then have "(of_nat (Suc a) :: rat) \<le> of_nat b" by (simp only: of_nat_le_iff)
  then have "(of_nat a :: rat) + 1 \<le> of_nat b" by simp
  moreover have "(1::rat) / 2 ^ 48 < 1" by simp
  ultimately show ?thesis
    unfolding sample_log_power by (auto split: if_splits)
qed

lemma sample_log_one: "sample_log 1 2 = 0"
  using sample_log_power [of 0 2] by simp

text \<open>
  Claim C9. For a \<^verbatim>\<open>math.log\<close> that grows strictly along the powers of two and is not
  negative at 1, \<open>meta_and_offset\<close> returns a pair of coordinates when the metatile size and
  the tile size are powers of two and the tile size is at most the metatile size; on
  every other input it raises \<open>ValueError\<close> and returns no pair.
\<close>

theorem meta_and_offset_raises_iff:
  assumes "\<forall>a b. a < b \<longrightarrow> math_log (2 ^ a) 2 < math_log (2 ^ b) 2"
    and "0 \<le> math_log 1 2"
  shows
  "if (\<exists>a. meta_size = 2 ^ a) \<and> (\<exists>b. tile_size = 2 ^ b) \<and> tile_size \<le> meta_size
   then \<exists>meta offset. meta_and_offset math_log r meta_size tile_size mdz = Inr (meta, offset)
   else \<exists>msg. meta_and_offset math_log r meta_size tile_size mdz = Inl (ValueError msg)"
proof (cases "(\<exists>a. meta_size = 2 ^ a) \<and> (\<exists>b. tile_size = 2 ^ b) \<and> tile_size \<le> meta_size")
  case True
  then obtain a b where s: "meta_size = 2 ^ a" "tile_size = 2 ^ b" "tile_size \<le> meta_size"
    by blast
  then have ba: "b \<le> a" by (rule valid_sizes)
  let ?mz = "size_to_zoom math_log (2 ^ a)" and ?tz = "size_to_zoom math_log (2 ^ b)"
  have le: "?tz \<le> ?mz"
  proof (cases "b = a")
    case True
    then show ?thesis by simp
  next
    case False
    with ba have "b < a" by simp
    with assms(1) show ?thesis by (simp add: size_to_zoom_def less_imp_le)
  qed
  have "math_log 1 2 \<le> math_log (2 ^ a) 2"
  proof (cases "a = 0")
    case True
    then show ?thesis by simp
  next
    case False
    then have "0 < a" by simp
    with assms(1) have "math_log (2 ^ 0) 2 < math_log (2 ^ a) 2" by blast
    then show ?thesis by simp
  qed
  with assms(2) have mz0: "0 \<le> ?mz" by (simp add: size_to_zoom_def)
  have d0: "0 \<le> py_int (float_sub ?mz ?tz)" using le by (rule delta_z_nonneg)
  have c0: "0 \<le> py_int ?mz" using mz0 by (rule py_int_nonneg)
  show ?thesis
  proof (cases "tile_z r < py_int (float_sub ?mz ?tz)")
    case below: True
    have "meta_and_offset math_log r (2 ^ a) (2 ^ b) mdz =
            Inr (TileRequest 0 0 0 ''zip'', TileRequest 0 0 0 (tile_format r))"
      using le below by (intro meta_and_offset_below) simp_all
    with True s show ?thesis by simp
  next
    case above: False
    let ?d = "py_int (float_sub ?mz ?tz)"
    let ?D = "if truthy_int mdz \<and> the mdz < tile_z r - ?d
              then min (tile_z r - the mdz) (py_int ?mz) else ?d"
    have "0 \<le> ?D" using d0 c0 by auto
    moreover have "\<not> ?tz > ?mz" using le by simp
    moreover have "?d \<le> tile_z r" using above by simp
    ultimately have "meta_and_offset math_log r (2 ^ a) (2 ^ b) mdz = Inr (coordinates_at r ?D)"
      by (intro meta_and_offset_sizes [where d = ?d and c = "py_int ?mz"]) simp_all
    with True s show ?thesis by (auto simp: coordinates_at_def Let_def)
  qed
next
  case False
  show ?thesis
  proof (cases "is_power_of_two meta_size \<and> is_power_of_two tile_size")
    case True
    then obtain a b where s: "meta_size = 2 ^ a" "tile_size = 2 ^ b"
      by (auto simp: is_power_of_two_iff)
    with False have "a < b" by auto
    with assms(1) have "size_to_zoom math_log (2 ^ a) < size_to_zoom math_log (2 ^ b)"
      by (simp add: size_to_zoom_def)
    with False show ?thesis
      unfolding s by (simp add: meta_and_offset_def Let_def)
  next
    case nv: False
    with False show ?thesis
      by (auto simp: meta_and_offset_def Let_def is_power_of_two_iff)
  qed
qed

theorem meta_and_offset_raises_iff_witness:
  "(\<exists>meta offset.
      meta_and_offset sample_log (TileRequest 5 10 12 ''mvt'') 8 1 None = Inr (meta, offset)) \<and>
   (\<exists>msg. meta_and_offset sample_log (TileRequest 5 10 12 ''mvt'') 6 1 None =
      Inl (ValueError msg)) \<and>
   (\<exists>msg. meta_and_offset sample_log (TileRequest 5 10 12 ''mvt'') 2 4 None =
      Inl (ValueError msg))"
proof -
  have p8: "\<exists>a. (8::int) = 2 ^ a" by (rule exI [of _ 3]) simp
  have p1: "\<exists>b. (1::int) = 2 ^ b" by (rule exI [of _ 0]) simp
  have "\<not> is_power_of_two 6" by (simp add: is_power_of_two_def)
  then have p6: "\<not> (\<exists>a. (6::int) = 2 ^ a)" by (simp add: is_power_of_two_iff)
  have inc: "\<forall>a b. a < b \<longrightarrow> sample_log (2 ^ a) 2 < sample_log (2 ^ b) 2"
    using sample_log_increasing by blast
  have one: "0 \<le> sample_log 1 2" by (simp add: sample_log_one)
  show ?thesis
    using meta_and_offset_raises_iff [where math_log = sample_log, OF inc one,
        where meta_size = 8 and tile_size = 1 and r = "TileRequest 5 10 12 ''mvt''"
        and mdz = None]
      meta_and_offset_raises_iff [where math_log = sample_log, OF inc one,
        where meta_size = 6 and tile_size = 1 and r = "TileRequest 5 10 12 ''mvt''"
        and mdz = None]
      meta_and_offset_raises_iff [where math_log = sample_log, OF inc one,
        where meta_size = 2 and tile_size = 4 and r = "TileRequest 5 10 12 ''mvt''"
        and mdz = None]
      p8 p1 p6
    by simp
qed

text \<open>
  Claim C10. A maximum detail zoom of 0 is false in the clamp's condition, as \<^verbatim>\<open>None\<close> is:
  on every input and for every \<^verbatim>\<open>math.log\<close>, \<open>meta_and_offset\<close> with a maximum detail zoom of
  0 returns what it returns with none.
\<close>

theorem meta_and_offset_zero_is_unset:
  "meta_and_offset math_log r meta_size tile_size (Some 0) =
     meta_and_offset math_log r meta_size tile_size None"
  by (simp add: meta_and_offset_def Let_def)

theorem meta_and_offset_zero_is_unset_witness:
  "meta_and_offset sample_log (TileRequest 3 5 6 ''mvt'') 8 2 (Some 0) =
     meta_and_offset sample_log (TileRequest 3 5 6 ''mvt'') 8 2 None \<and>
   meta_and_offset sample_log (TileRequest 3 5 6 ''mvt'') 8 2 None =
     Inr (TileRequest 1 1 1 ''zip'', TileRequest 2 1 2 ''mvt'')"
proof -
  have "meta_and_offset sample_log (TileRequest 3 5 6 ''mvt'') 8 2 None =
     Inr (TileRequest 1 1 1 ''zip'', TileRequest 2 1 2 ''mvt'')"
    by code_simp
  with meta_and_offset_zero_is_unset [of sample_log "TileRequest 3 5 6 ''mvt''" 8 2]
  show ?thesis by simp
qed

section \<open>Properties of the key builder\<close>

subsection \<open>The MD5 model\<close>

lemma md5_test_empty: "md5_hexdigest [] = ''d41d8cd98f00b204e9800998ecf8427e''"
  by code_simp

lemma md5_test_abc: "md5_hexdigest ''abc'' = ''900150983cd24fb0d6963f7d28e17f72''"
  by code_simp

lemma length_le_bytes [simp]: "length (le_bytes n w) = n"
  by (simp add: le_bytes_def)

lemma length_md5_digest: "length (md5_digest msg) = 16"
  by (simp add: md5_digest_def split: prod.splits)

lemma length_concat_hex: "length (concat (map hex_byte bs)) = 2 * length bs"
  by (induction bs) (simp_all add: hex_byte_def)

lemma length_md5_hexdigest: "length (md5_hexdigest s) = 32"
  by (simp add: md5_hexdigest_def length_concat_hex length_md5_digest)

lemma set_hex_byte: "set (hex_byte b) \<subseteq> set hex_digits"
proof -
  have "unat b < 256" using unsigned_less [of b] by simp
  then have "unat b div 16 < length hex_digits" and "unat b mod 16 < length hex_digits"
    by (simp_all add: hex_digits_def)
  then show ?thesis
    unfolding hex_byte_def by (simp only: list.set insert_subset empty_subsetI nth_mem simp_thms)
qed

lemma set_concat_hex: "set (concat (map hex_byte bs)) \<subseteq> set hex_digits"
  by (induction bs) (simp_all add: set_hex_byte)

lemma set_md5_hexdigest: "set (md5_hexdigest s) \<subseteq> set hex_digits"
  unfolding md5_hexdigest_def by (rule set_concat_hex)

lemma md5_root_slash: "md5_hexdigest ''/all/0/0/0.zip'' = ''638d1a5c6de6707ce12d1f8689ae89e6''"
  by code_simp

lemma md5_root_noslash: "md5_hexdigest ''all/0/0/0.zip'' = ''fce6b7a56c3c4f2b39f274632817e007''"
  by code_simp


lemma md5_metatile_slash: "md5_hexdigest ''/all/2/1/1.zip'' = ''763c07a4380f9c1278cb26bf96b115b1''"
  by code_simp

lemma str_int_digits [simp]:
  "str_int 0 = ''0''" "str_int 1 = ''1''" "str_int 2 = ''2''" "str_int 3 = ''3''"
  "str_int 4 = ''4''" "str_int 7 = ''7''"
  by (simp_all add: str_int_def str_nat.simps)


subsection \<open>The key\<close>

text \<open>
  Claim C8, as amended. \<open>compute_key\<close> returns the path
  \<^verbatim>\<open><layer>/<zoom>/<x>/<y>.<format>\<close> of the metatile, preceded, when \<open>include_hash\<close> is
  true, by a segment of 5 hexadecimal characters, the first 5 of the MD5 digest of that path
  with its leading separator (\<^verbatim>\<open>/<layer>/<zoom>/<x>/<y>.<format>\<close>), and preceded, when the
  prefix is not empty, by the prefix as a first segment; an empty or absent prefix adds
  nothing, and the result has no leading separator of its own. The result is a function
  of the four arguments.
\<close>

theorem compute_key_eq:
  "compute_key prefix layer meta_tile include_hash =
     (if truthy_str prefix then the prefix @ ''/'' else [])
     @ (if include_hash then take 5 (md5_hexdigest (''/'' @ tile_path layer meta_tile)) @ ''/''
        else [])
     @ tile_path layer meta_tile \<and>
   length (take 5 (md5_hexdigest (''/'' @ tile_path layer meta_tile))) = 5 \<and>
   set (take 5 (md5_hexdigest (''/'' @ tile_path layer meta_tile))) \<subseteq> set hex_digits"
proof -
  have "set (take 5 (md5_hexdigest (''/'' @ tile_path layer meta_tile)))
          \<subseteq> set (md5_hexdigest (''/'' @ tile_path layer meta_tile))"
    by (rule set_take_subset)
  with set_md5_hexdigest
  have "set (take 5 (md5_hexdigest (''/'' @ tile_path layer meta_tile))) \<subseteq> set hex_digits"
    by (rule order_trans [rotated])
  moreover have "length (take 5 (md5_hexdigest (''/'' @ tile_path layer meta_tile))) = 5"
    by (simp add: length_md5_hexdigest)
  moreover have "compute_key prefix layer meta_tile include_hash =
     (if truthy_str prefix then the prefix @ ''/'' else [])
     @ (if include_hash then take 5 (md5_hexdigest (''/'' @ tile_path layer meta_tile)) @ ''/''
        else [])
     @ tile_path layer meta_tile"
    by (cases prefix) (simp_all add: compute_key_def tile_path_def Let_def)
  ultimately show ?thesis by blast
qed


theorem compute_key_eq_witness:
  "compute_key (Some ''tiles'') ''all'' (TileRequest 2 1 1 ''zip'') True =
     ''tiles/763c0/all/2/1/1.zip'' \<and>
   compute_key (Some []) ''all'' (TileRequest 2 1 1 ''zip'') True = ''763c0/all/2/1/1.zip'' \<and>
   compute_key (Some ''tiles'') ''all'' (TileRequest 2 1 1 ''zip'') False =
     ''tiles/all/2/1/1.zip'' \<and>
   compute_key None ''all'' (TileRequest 2 1 1 ''zip'') False = ''all/2/1/1.zip''"
  using compute_key_eq [of "Some ''tiles''" "''all''" "TileRequest 2 1 1 ''zip''" True]
    compute_key_eq [of "Some []" "''all''" "TileRequest 2 1 1 ''zip''" True]
    compute_key_eq [of "Some ''tiles''" "''all''" "TileRequest 2 1 1 ''zip''" False]
    compute_key_eq [of None "''all''" "TileRequest 2 1 1 ''zip''" False]
  by (simp add: tile_path_def md5_metatile_slash)

text \<open>
  The claim as first stated takes the digest of the path itself. The source hashes the
  string it has built so far, which starts with the separator: for the root metatile of
  the layer \<^verbatim>\<open>all\<close> the key is \<^verbatim>\<open>638d1/all/0/0/0.zip\<close>, from the digest of
  \<^verbatim>\<open>/all/0/0/0.zip\<close>, and the digest of \<^verbatim>\<open>all/0/0/0.zip\<close> starts with \<^verbatim>\<open>fce6b\<close>.
\<close>

theorem compute_key_hash_counterexample:
  "compute_key None ''all'' (TileRequest 0 0 0 ''zip'') True = ''638d1/all/0/0/0.zip'' \<and>
   tile_path ''all'' (TileRequest 0 0 0 ''zip'') = ''all/0/0/0.zip'' \<and>
   take 5 (md5_hexdigest (tile_path ''all'' (TileRequest 0 0 0 ''zip''))) = ''fce6b'' \<and>
   compute_key None ''all'' (TileRequest 0 0 0 ''zip'') True \<noteq>
     take 5 (md5_hexdigest (tile_path ''all'' (TileRequest 0 0 0 ''zip''))) @ ''/''
       @ tile_path ''all'' (TileRequest 0 0 0 ''zip'')"
  by (simp add: compute_key_def tile_path_def Let_def md5_root_slash md5_root_noslash)

section \<open>Properties of the fetch pipeline\<close>

lemma cache_get_miss:
  "map_of (entries cache) meta = None \<Longrightarrow> cache_get cache meta = (None, cache)"
  by (simp add: cache_get_def)

lemma error_code_of_simps [simp]:
  "error_code_of None = ''None''"
  "error_code_of (Some c) = c"
  by (simp_all add: error_code_of_def)

lemma metatile_fetch_client_error:
  assumes "map_of (entries cache) meta = None"
    and "store (fetch_params cfg meta ci) = Inl (ClientError c)"
  shows "metatile_fetch cfg store cache meta ci =
           (if error_code_of c = ''304'' then Inl MetatileNotModifiedException
            else if error_code_of c = ''NoSuchKey'' then
              Inl (MetatileNotFoundException
                     (''No tile found at s3://'' @ Bucket (fetch_params cfg meta ci) @ ''/''
                        @ Key (fetch_params cfg meta ci)))
            else
              Inl (UnknownMetatileException
                     (error_code_of c @ '' at s3://'' @ Bucket (fetch_params cfg meta ci) @ ''/''
                        @ Key (fetch_params cfg meta ci))),
            cache, [fetch_params cfg meta ci])"
  using assms by (simp add: metatile_fetch_def cache_get_miss Let_def)

lemma metatile_fetch_other_exception:
  assumes "map_of (entries cache) meta = None"
    and "store (fetch_params cfg meta ci) = Inl (OtherException name)"
  shows "metatile_fetch cfg store cache meta ci =
           (Inl (Uncaught name), cache, [fetch_params cfg meta ci])"
  using assms by (simp add: metatile_fetch_def cache_get_miss Let_def)

lemma offset_key_eq:
  "offset_key offset =
     str_int (tile_z offset) @ ''/'' @ str_int (tile_x offset) @ ''/''
       @ str_int (tile_y offset) @ ''.'' @ tile_format offset"
  by (simp add: offset_key_def)

text \<open>
  Claim C2, as amended. From a cache that does not hold the metatile, a \<open>ClientError\<close> of
  the object store with code \<^verbatim>\<open>304\<close> makes \<open>retrieve_tile\<close> raise
  \<open>MetatileNotModifiedException\<close>, with code \<^verbatim>\<open>NoSuchKey\<close> \<open>MetatileNotFoundException\<close>, with
  any other code or none \<open>UnknownMetatileException\<close>, and an exception of the store that is
  no \<open>ClientError\<close> leaves \<open>retrieve_tile\<close> as it is; in the four cases the cache is returned
  as it was and the store was called once. When the metatile was obtained and its archive
  has no member named \<^verbatim>\<open><offset.zoom>/<offset.x>/<offset.y>.<offset.format>\<close>,
  \<open>retrieve_tile\<close> raises \<open>TileNotFoundInMetatile\<close> from the \<open>KeyError\<close> of the archive.
\<close>

theorem retrieve_tile_failures:
  "(map_of (entries cache) meta = None \<and>
      store (fetch_params cfg meta ci) = Inl (ClientError (Some ''304'')) \<longrightarrow>
      retrieve_tile cfg store unzip cache meta offset ci =
        (Inl MetatileNotModifiedException, cache, [fetch_params cfg meta ci])) \<and>
   (map_of (entries cache) meta = None \<and>
      store (fetch_params cfg meta ci) = Inl (ClientError (Some ''NoSuchKey'')) \<longrightarrow>
      (\<exists>msg. retrieve_tile cfg store unzip cache meta offset ci =
        (Inl (MetatileNotFoundException msg), cache, [fetch_params cfg meta ci]))) \<and>
   (map_of (entries cache) meta = None \<and>
      store (fetch_params cfg meta ci) = Inl (ClientError c) \<and>
      c \<noteq> Some ''304'' \<and> c \<noteq> Some ''NoSuchKey'' \<longrightarrow>
      (\<exists>msg. retrieve_tile cfg store unzip cache meta offset ci =
        (Inl (UnknownMetatileException msg), cache, [fetch_params cfg meta ci]))) \<and>
   (map_of (entries cache) meta = None \<and>
      store (fetch_params cfg meta ci) = Inl (OtherException name) \<longrightarrow>
      retrieve_tile cfg store unzip cache meta offset ci =
        (Inl (Uncaught name), cache, [fetch_params cfg meta ci])) \<and>
   (metatile_fetch cfg store cache meta ci = (Inr metatile, cache', calls) \<and>
      unzip (data metatile) = Some z \<and>
      z (str_int (tile_z offset) @ ''/'' @ str_int (tile_x offset) @ ''/''
           @ str_int (tile_y offset) @ ''.'' @ tile_format offset) = Inl e \<longrightarrow>
      retrieve_tile cfg store unzip cache meta offset ci =
        (Inl (TileNotFoundInMetatile e), cache', calls))"
proof (intro conjI impI)
  assume "map_of (entries cache) meta = None \<and>
      store (fetch_params cfg meta ci) = Inl (ClientError (Some ''304''))"
  then show "retrieve_tile cfg store unzip cache meta offset ci =
        (Inl MetatileNotModifiedException, cache, [fetch_params cfg meta ci])"
    by (simp add: retrieve_tile_def metatile_fetch_client_error)
next
  assume "map_of (entries cache) meta = None \<and>
      store (fetch_params cfg meta ci) = Inl (ClientError (Some ''NoSuchKey''))"
  then show "\<exists>msg. retrieve_tile cfg store unzip cache meta offset ci =
        (Inl (MetatileNotFoundException msg), cache, [fetch_params cfg meta ci])"
    by (simp add: retrieve_tile_def metatile_fetch_client_error)
next
  assume a: "map_of (entries cache) meta = None \<and>
      store (fetch_params cfg meta ci) = Inl (ClientError c) \<and>
      c \<noteq> Some ''304'' \<and> c \<noteq> Some ''NoSuchKey''"
  then have "error_code_of c \<noteq> ''304''" and "error_code_of c \<noteq> ''NoSuchKey''"
    by (cases c; simp)+
  with a show "\<exists>msg. retrieve_tile cfg store unzip cache meta offset ci =
        (Inl (UnknownMetatileException msg), cache, [fetch_params cfg meta ci])"
    by (simp add: retrieve_tile_def metatile_fetch_client_error)
next
  assume "map_of (entries cache) meta = None \<and>
      store (fetch_params cfg meta ci) = Inl (OtherException name)"
  then show "retrieve_tile cfg store unzip cache meta offset ci =
        (Inl (Uncaught name), cache, [fetch_params cfg meta ci])"
    by (simp add: retrieve_tile_def metatile_fetch_other_exception)
next
  assume "metatile_fetch cfg store cache meta ci = (Inr metatile, cache', calls) \<and>
      unzip (data metatile) = Some z \<and>
      z (str_int (tile_z offset) @ ''/'' @ str_int (tile_x offset) @ ''/''
           @ str_int (tile_y offset) @ ''.'' @ tile_format offset) = Inl e"
  then show "retrieve_tile cfg store unzip cache meta offset ci =
        (Inl (TileNotFoundInMetatile e), cache', calls)"
    by (simp add: retrieve_tile_def extract_tile_def offset_key_eq)
qed

theorem retrieve_tile_failures_witness:
  "retrieve_tile sample_config (failing_s3 (Some ''304'')) sample_unzip empty_cache
      (TileRequest 2 1 1 ''zip'') (TileRequest 3 2 4 ''mvt'') (CacheInfo None (Some ''abc'')) =
     (Inl MetatileNotModifiedException, empty_cache,
      [\<lparr>Bucket = ''tiles'', Key = ''all/2/1/1.zip'', IfModifiedSince = None,
        IfNoneMatch = Some ''abc'', RequestPayer = None\<rparr>]) \<and>
   (\<exists>msg. retrieve_tile sample_config (failing_s3 (Some ''NoSuchKey'')) sample_unzip empty_cache
      (TileRequest 2 1 1 ''zip'') (TileRequest 3 2 4 ''mvt'') (CacheInfo None None) =
     (Inl (MetatileNotFoundException msg), empty_cache,
      [\<lparr>Bucket = ''tiles'', Key = ''all/2/1/1.zip'', IfModifiedSince = None,
        IfNoneMatch = None, RequestPayer = None\<rparr>])) \<and>
   (\<exists>msg. retrieve_tile sample_config (failing_s3 (Some ''AccessDenied'')) sample_unzip empty_cache
      (TileRequest 2 1 1 ''zip'') (TileRequest 3 2 4 ''mvt'') (CacheInfo None None) =
     (Inl (UnknownMetatileException msg), empty_cache,
      [\<lparr>Bucket = ''tiles'', Key = ''all/2/1/1.zip'', IfModifiedSince = None,
        IfNoneMatch = None, RequestPayer = None\<rparr>])) \<and>
   retrieve_tile sample_config (raising_s3 ''ReadTimeoutError'') sample_unzip empty_cache
      (TileRequest 2 1 1 ''zip'') (TileRequest 3 2 4 ''mvt'') (CacheInfo None None) =
     (Inl (Uncaught ''ReadTimeoutError''), empty_cache,
      [\<lparr>Bucket = ''tiles'', Key = ''all/2/1/1.zip'', IfModifiedSince = None,
        IfNoneMatch = None, RequestPayer = None\<rparr>]) \<and>
   retrieve_tile sample_config sample_s3 sample_unzip (warm_cache 1)
      (TileRequest 2 1 1 ''zip'') (TileRequest 3 7 7 ''mvt'') (CacheInfo None None) =
     (Inl (TileNotFoundInMetatile
             (KeyError (''There is no item named '' @ [CHR 0x27] @ ''3/7/7.mvt'' @ [CHR 0x27]
                          @ '' in the archive''))),
      warm_cache 2, [])"
proof -
  have hit: "metatile_fetch sample_config sample_s3 (warm_cache 1) (TileRequest 2 1 1 ''zip'')
               (CacheInfo None None) = (Inr sample_metatile, warm_cache 2, [])"
    by (simp add: metatile_fetch_def cache_get_def warm_cache_def)
  have arch: "sample_unzip (data sample_metatile) = Some sample_archive"
    by (simp add: sample_unzip_def sample_metatile_def)
  have absent: "sample_archive
      (str_int (tile_z (TileRequest 3 7 7 ''mvt'')) @ ''/''
         @ str_int (tile_x (TileRequest 3 7 7 ''mvt'')) @ ''/''
         @ str_int (tile_y (TileRequest 3 7 7 ''mvt'')) @ ''.''
         @ tile_format (TileRequest 3 7 7 ''mvt'')) =
      Inl (KeyError (''There is no item named '' @ [CHR 0x27] @ ''3/7/7.mvt'' @ [CHR 0x27]
                          @ '' in the archive''))"
    by (simp add: sample_archive_def)
  have params: "fetch_params sample_config (TileRequest 2 1 1 ''zip'') (CacheInfo None e) =
      \<lparr>Bucket = ''tiles'', Key = ''all/2/1/1.zip'', IfModifiedSince = None,
        IfNoneMatch = (if truthy_str e then e else None), RequestPayer = None\<rparr>" for e
    by (simp add: fetch_params_def sample_config_def compute_key_def)
  have miss: "map_of (entries empty_cache) (TileRequest 2 1 1 ''zip'') = None"
    by (simp add: empty_cache_def)
  have c1: "retrieve_tile sample_config (failing_s3 (Some ''304'')) sample_unzip empty_cache
      (TileRequest 2 1 1 ''zip'') (TileRequest 3 2 4 ''mvt'') (CacheInfo None (Some ''abc'')) =
     (Inl MetatileNotModifiedException, empty_cache,
      [fetch_params sample_config (TileRequest 2 1 1 ''zip'') (CacheInfo None (Some ''abc''))])"
    using retrieve_tile_failures [where cache = empty_cache and meta = "TileRequest 2 1 1 ''zip''"
        and store = "failing_s3 (Some ''304'')" and cfg = sample_config
        and ci = "CacheInfo None (Some ''abc'')" and unzip = sample_unzip
        and offset = "TileRequest 3 2 4 ''mvt''"] miss
    by (simp add: failing_s3_def)
  have c2: "\<exists>msg. retrieve_tile sample_config (failing_s3 (Some ''NoSuchKey'')) sample_unzip
      empty_cache (TileRequest 2 1 1 ''zip'') (TileRequest 3 2 4 ''mvt'') (CacheInfo None None) =
     (Inl (MetatileNotFoundException msg), empty_cache,
      [fetch_params sample_config (TileRequest 2 1 1 ''zip'') (CacheInfo None None)])"
    using retrieve_tile_failures [where cache = empty_cache and meta = "TileRequest 2 1 1 ''zip''"
        and store = "failing_s3 (Some ''NoSuchKey'')" and cfg = sample_config
        and ci = "CacheInfo None None" and unzip = sample_unzip
        and offset = "TileRequest 3 2 4 ''mvt''"] miss
    by (simp add: failing_s3_def)
  have c3: "\<exists>msg. retrieve_tile sample_config (failing_s3 (Some ''AccessDenied'')) sample_unzip
      empty_cache (TileRequest 2 1 1 ''zip'') (TileRequest 3 2 4 ''mvt'') (CacheInfo None None) =
     (Inl (UnknownMetatileException msg), empty_cache,
      [fetch_params sample_config (TileRequest 2 1 1 ''zip'') (CacheInfo None None)])"
    using retrieve_tile_failures [where cache = empty_cache and meta = "TileRequest 2 1 1 ''zip''"
        and store = "failing_s3 (Some ''AccessDenied'')" and cfg = sample_config
        and ci = "CacheInfo None None" and unzip = sample_unzip
        and offset = "TileRequest 3 2 4 ''mvt''" and c = "Some ''AccessDenied''"] miss
    by (simp add: failing_s3_def)
  have c4: "retrieve_tile sample_config (raising_s3 ''ReadTimeoutError'') sample_unzip
      empty_cache (TileRequest 2 1 1 ''zip'') (TileRequest 3 2 4 ''mvt'') (CacheInfo None None) =
     (Inl (Uncaught ''ReadTimeoutError''), empty_cache,
      [fetch_params sample_config (TileRequest 2 1 1 ''zip'') (CacheInfo None None)])"
    using retrieve_tile_failures [where cache = empty_cache and meta = "TileRequest 2 1 1 ''zip''"
        and store = "raising_s3 ''ReadTimeoutError''" and cfg = sample_config
        and ci = "CacheInfo None None" and unzip = sample_unzip
        and offset = "TileRequest 3 2 4 ''mvt''" and name = "''ReadTimeoutError''"] miss
    by (simp add: raising_s3_def)
  have c5: "retrieve_tile sample_config sample_s3 sample_unzip (warm_cache 1)
      (TileRequest 2 1 1 ''zip'') (TileRequest 3 7 7 ''mvt'') (CacheInfo None None) =
     (Inl (TileNotFoundInMetatile
             (KeyError (''There is no item named '' @ [CHR 0x27] @ ''3/7/7.mvt'' @ [CHR 0x27]
                          @ '' in the archive''))),
      warm_cache 2, [])"
    using retrieve_tile_failures [where cache = "warm_cache 1"
        and meta = "TileRequest 2 1 1 ''zip''"
        and store = sample_s3 and cfg = sample_config
        and ci = "CacheInfo None None" and unzip = sample_unzip
        and offset = "TileRequest 3 7 7 ''mvt''" and metatile = sample_metatile
        and cache' = "warm_cache 2" and calls = "[]" and z = sample_archive
        and e = "KeyError (''There is no item named '' @ [CHR 0x27] @ ''3/7/7.mvt''
                             @ [CHR 0x27] @ '' in the archive'')"] hit arch absent
    by blast
  from c1 c2 c3 c4 c5 show ?thesis
    by (simp only: params truthy_str.simps if_True if_False list.simps simp_thms)
qed

text \<open>
  The claim as first stated maps every other backend error to the unknown failure. The
  \<^verbatim>\<open>except\<close> clause of the source names \<^verbatim>\<open>ClientError\<close> only: when the call to the store
  raises an exception of another class, such as botocore's \<^verbatim>\<open>EndpointConnectionError\<close> for
  a connection that cannot be made, \<open>retrieve_tile\<close> raises that exception, and not
  \<open>UnknownMetatileException\<close>.
\<close>

theorem retrieve_tile_uncaught_counterexample:
  "retrieve_tile sample_config (raising_s3 ''EndpointConnectionError'') sample_unzip empty_cache
      (TileRequest 2 1 1 ''zip'') (TileRequest 3 2 4 ''mvt'') (CacheInfo None None) =
     (Inl (Uncaught ''EndpointConnectionError''), empty_cache,
      [\<lparr>Bucket = ''tiles'', Key = ''all/2/1/1.zip'', IfModifiedSince = None,
        IfNoneMatch = None, RequestPayer = None\<rparr>])"
  by (simp add: retrieve_tile_def metatile_fetch_def cache_get_def empty_cache_def
      raising_s3_def fetch_params_def sample_config_def compute_key_def Let_def)

text \<open>
  Claim C6. When the cache holds the metatile, \<open>metatile_fetch\<close> returns the cached
  object and makes no call to the object store; the result is the same for every pair of
  freshness hints and every object store.
\<close>

theorem metatile_fetch_cache_hit:
  assumes "map_of (entries cache) meta = Some (cached, n)"
  shows "\<exists>cache'. metatile_fetch cfg store cache meta ci = (Inr cached, cache', []) \<and>
           metatile_fetch cfg store' cache meta ci' = (Inr cached, cache', [])"
  using assms by (simp add: metatile_fetch_def cache_get_def)

theorem metatile_fetch_cache_hit_witness:
  "map_of (entries (warm_cache 1)) (TileRequest 2 1 1 ''zip'') = Some (sample_metatile, 1) \<and>
   metatile_fetch sample_config sample_s3 (warm_cache 1) (TileRequest 2 1 1 ''zip'')
      (CacheInfo None None) = (Inr sample_metatile, warm_cache 2, []) \<and>
   metatile_fetch sample_config (failing_s3 (Some ''304'')) (warm_cache 1)
      (TileRequest 2 1 1 ''zip'') (CacheInfo (Some 1500000000) (Some ''abc'')) =
     (Inr sample_metatile, warm_cache 2, [])"
proof -
  have hit: "metatile_fetch sample_config sample_s3 (warm_cache 1) (TileRequest 2 1 1 ''zip'')
               (CacheInfo None None) = (Inr sample_metatile, warm_cache 2, [])"
    by (simp add: metatile_fetch_def cache_get_def warm_cache_def)
  have present: "map_of (entries (warm_cache 1)) (TileRequest 2 1 1 ''zip'') = Some (sample_metatile, 1)"
    by (simp add: warm_cache_def)
  from metatile_fetch_cache_hit [OF present, of sample_config sample_s3 "CacheInfo None None"
      "failing_s3 (Some ''304'')" "CacheInfo (Some 1500000000) (Some ''abc'')"]
  show ?thesis using hit present by auto
qed

text \<open>
  Claim C7. \<open>retrieve_tile\<close> returns a tile exactly when \<open>metatile_fetch\<close> returns a
  metatile whose archive has a member named \<^verbatim>\<open><offset.zoom>/<offset.x>/<offset.y>.<offset.format>\<close>,
  the three numbers in decimal; the tile's data are the bytes of that member, and its
  \<open>last_modified\<close> and \<open>etag\<close> are the metatile's.
\<close>

theorem retrieve_tile_success:
  "retrieve_tile cfg store unzip cache meta offset ci = (Inr tile, cache', calls) \<longleftrightarrow>
     (\<exists>metatile z.
        metatile_fetch cfg store cache meta ci = (Inr metatile, cache', calls) \<and>
        unzip (data metatile) = Some z \<and>
        z (str_int (tile_z offset) @ ''/'' @ str_int (tile_x offset) @ ''/''
             @ str_int (tile_y offset) @ ''.'' @ tile_format offset) = Inr (data tile) \<and>
        last_modified (cache_info tile) = last_modified (cache_info metatile) \<and>
        etag (cache_info tile) = etag (cache_info metatile))"
  (is "?lhs \<longleftrightarrow> ?rhs")
proof
  assume ?lhs
  then show ?rhs
    by (auto simp: retrieve_tile_def extract_tile_def offset_key_eq
        split: prod.splits sum.splits option.splits)
next
  assume ?rhs
  then obtain metatile z where
    "metatile_fetch cfg store cache meta ci = (Inr metatile, cache', calls)"
    "unzip (data metatile) = Some z"
    "z (str_int (tile_z offset) @ ''/'' @ str_int (tile_x offset) @ ''/''
          @ str_int (tile_y offset) @ ''.'' @ tile_format offset) = Inr (data tile)"
    "last_modified (cache_info tile) = last_modified (cache_info metatile)"
    "etag (cache_info tile) = etag (cache_info metatile)"
    by blast
  then show ?lhs
    by (cases tile; cases "cache_info tile")
      (simp add: retrieve_tile_def extract_tile_def offset_key_eq)
qed

theorem retrieve_tile_success_witness:
  "retrieve_tile sample_config sample_s3 sample_unzip empty_cache
      (TileRequest 2 1 1 ''zip'') (TileRequest 3 2 4 ''mvt'') (CacheInfo None None) =
     (Inr (StorageResponse [1, 2, 3] (CacheInfo (Some 1500000000) (Some ''abc''))),
      warm_cache 1,
      [\<lparr>Bucket = ''tiles'', Key = ''all/2/1/1.zip'', IfModifiedSince = None,
        IfNoneMatch = None, RequestPayer = None\<rparr>]) \<and>
   sample_unzip (data sample_metatile) = Some sample_archive \<and>
   sample_archive ''3/2/4.mvt'' = Inr [1, 2, 3] \<and>
   sample_archive ''3/2/4.json'' \<noteq> Inr [1, 2, 3] \<and>
   sample_archive ''4/2/3.mvt'' \<noteq> Inr [1, 2, 3]"
proof -
  have params: "fetch_params sample_config (TileRequest 2 1 1 ''zip'') (CacheInfo None None) =
      \<lparr>Bucket = ''tiles'', Key = ''all/2/1/1.zip'', IfModifiedSince = None,
        IfNoneMatch = None, RequestPayer = None\<rparr>"
    by (simp add: fetch_params_def sample_config_def compute_key_def)
  have set: "cache_setitem empty_cache (TileRequest 2 1 1 ''zip'') sample_metatile = Inr (warm_cache 1)"
    by (simp add: cache_setitem_def empty_cache_def warm_cache_def getsizeof_def
        sample_metatile_def evict.simps currsize_def)
  have fetch: "metatile_fetch sample_config sample_s3 empty_cache (TileRequest 2 1 1 ''zip'')
      (CacheInfo None None) =
      (Inr sample_metatile, warm_cache 1,
       [\<lparr>Bucket = ''tiles'', Key = ''all/2/1/1.zip'', IfModifiedSince = None,
         IfNoneMatch = None, RequestPayer = None\<rparr>])"
    using set
    by (simp add: metatile_fetch_def cache_get_def params sample_s3_def Let_def
        sample_metatile_def empty_cache_def)
  have arch: "sample_unzip (data sample_metatile) = Some sample_archive"
    by (simp add: sample_unzip_def sample_metatile_def)
  have member: "sample_archive
      (str_int (tile_z (TileRequest 3 2 4 ''mvt'')) @ ''/''
         @ str_int (tile_x (TileRequest 3 2 4 ''mvt'')) @ ''/''
         @ str_int (tile_y (TileRequest 3 2 4 ''mvt'')) @ ''.''
         @ tile_format (TileRequest 3 2 4 ''mvt'')) = Inr [1, 2, 3]"
    by (simp add: sample_archive_def)
  have others: "sample_archive ''3/2/4.mvt'' = Inr [1, 2, 3]"
    "sample_archive ''3/2/4.json'' \<noteq> Inr [1, 2, 3]"
    "sample_archive ''4/2/3.mvt'' \<noteq> Inr [1, 2, 3]"
    by (simp_all add: sample_archive_def)
  have "\<exists>metatile z.
        metatile_fetch sample_config sample_s3 empty_cache (TileRequest 2 1 1 ''zip'')
          (CacheInfo None None) =
          (Inr metatile, warm_cache 1,
           [\<lparr>Bucket = ''tiles'', Key = ''all/2/1/1.zip'', IfModifiedSince = None,
             IfNoneMatch = None, RequestPayer = None\<rparr>]) \<and>
        sample_unzip (data metatile) = Some z \<and>
        z (str_int (tile_z (TileRequest 3 2 4 ''mvt'')) @ ''/''
             @ str_int (tile_x (TileRequest 3 2 4 ''mvt'')) @ ''/''
             @ str_int (tile_y (TileRequest 3 2 4 ''mvt'')) @ ''.''
             @ tile_format (TileRequest 3 2 4 ''mvt'')) =
          Inr (data (StorageResponse [1, 2, 3] (CacheInfo (Some 1500000000) (Some ''abc'')))) \<and>
        last_modified (cache_info (StorageResponse [1, 2, 3] (CacheInfo (Some 1500000000) (Some ''abc''))))
          = last_modified (cache_info metatile) \<and>
        etag (cache_info (StorageResponse [1, 2, 3] (CacheInfo (Some 1500000000) (Some ''abc''))))
          = etag (cache_info metatile)"
    using fetch arch member by (auto simp: sample_metatile_def)
  then have "retrieve_tile sample_config sample_s3 sample_unzip empty_cache
      (TileRequest 2 1 1 ''zip'') (TileRequest 3 2 4 ''mvt'') (CacheInfo None None) =
     (Inr (StorageResponse [1, 2, 3] (CacheInfo (Some 1500000000) (Some ''abc''))),
      warm_cache 1,
      [\<lparr>Bucket = ''tiles'', Key = ''all/2/1/1.zip'', IfModifiedSince = None,
        IfNoneMatch = None, RequestPayer = None\<rparr>])"
    by (rule retrieve_tile_success [THEN iffD2])
  with arch others show ?thesis by simp
qed

end
